theory Spec2Isabelle
  imports Complex_Main
begin

section \<open>JavaScript values\<close>

text \<open>
  The values the handlers of \<^verbatim>\<open>server.js\<close> work on: what \<^verbatim>\<open>JSON.parse\<close> produces, and
  \<^verbatim>\<open>undefined\<close> (the value of a property that is absent). An object is the list of its own
  properties (each key once; \<open>map_of\<close> reads the first entry of a key). A number is the
  real it denotes; only whether it is zero matters below.
\<close>

datatype js =
    JUndefined
  | JNull
  | JBool bool
  | JNum real
  | JStr string
  | JArr "js list"
  | JObj "(string \<times> js) list"

text \<open>\<^verbatim>\<open>!v\<close> is false exactly on the truthy values.\<close>

fun truthy :: "js \<Rightarrow> bool" where
  "truthy JUndefined = False"
| "truthy JNull = False"
| "truthy (JBool b) = b"
| "truthy (JNum x) = (x \<noteq> 0)"
| "truthy (JStr s) = (s \<noteq> [])"
| "truthy (JArr xs) = True"
| "truthy (JObj kvs) = True"

text \<open>\<^verbatim>\<open>Array.isArray(v)\<close>.\<close>

fun isArray :: "js \<Rightarrow> bool" where
  "isArray (JArr xs) = True"
| "isArray v = False"

text \<open>The elements a \<^verbatim>\<open>for (const x of v)\<close> loop visits when \<open>v\<close> is an array.\<close>

fun elements :: "js \<Rightarrow> js list" where
  "elements (JArr xs) = xs"
| "elements v = []"

text \<open>
  An error object, by its class and its \<^verbatim>\<open>message\<close>: a \<open>TypeError\<close> of the engine, or an
  \<open>Error\<close> of any other class, as the collaborators throw them. The texts of the
  \<open>TypeError\<close>s below are those of V8, the engine of Node.js.
\<close>

datatype js_error = TypeError string | Error string

fun error_message :: "js_error \<Rightarrow> string" where
  "error_message (TypeError t) = t"
| "error_message (Error t) = t"

text \<open>
  \<^verbatim>\<open>v.k\<close> for a property name \<open>k\<close> that no prototype defines (\<^verbatim>\<open>reply\<close>, \<^verbatim>\<open>success\<close>,
  \<^verbatim>\<open>to\<close>, ...): the own property of an object, \<^verbatim>\<open>undefined\<close> on every other value.
  Reading a property of \<^verbatim>\<open>null\<close> or \<^verbatim>\<open>undefined\<close> throws; \<open>read_prop\<close> is the read
  with that throw.
\<close>

fun get_prop :: "js \<Rightarrow> string \<Rightarrow> js" where
  "get_prop (JObj kvs) k = (case map_of kvs k of None \<Rightarrow> JUndefined | Some v \<Rightarrow> v)"
| "get_prop v k = JUndefined"

definition read_prop :: "js \<Rightarrow> string \<Rightarrow> js_error + js" where
  "read_prop v k =
     (if v = JNull \<or> v = JUndefined
      then Inl (TypeError (''Cannot read properties of '' @
                  (if v = JNull then ''null'' else ''undefined'') @ '' (reading '' @ [CHR 0x27] @ k @ [CHR 0x27] @ '')''))
      else Inr (get_prop v k))"

section \<open>Strings\<close>

text \<open>
  A string is the list of the bytes of its UTF-8 encoding (a lone surrogate by the three
  bytes of its code unit), so that the empty string is the empty list and a character of
  ASCII is one byte. The functions below are those of the source on this encoding.
\<close>

text \<open>The character class \<^verbatim>\<open>[0-9]\<close>: the code units 48 to 57, each one byte.\<close>

definition is_digit :: "char \<Rightarrow> bool" where
  "is_digit c = (48 \<le> (of_char c :: nat) \<and> (of_char c :: nat) \<le> 57)"

text \<open>\<^verbatim>\<open>s.startsWith(p)\<close>.\<close>

definition startsWith :: "string \<Rightarrow> string \<Rightarrow> bool" where
  "startsWith s p = (take (length p) s = p)"

text \<open>
  \<^verbatim>\<open>s.replace(pat, rep)\<close> with a string pattern: the first occurrence of \<open>pat\<close> is
  replaced (\<open>rep\<close> holds no \<^verbatim>\<open>$\<close> here), and a string without one is returned as it is.
\<close>

fun replace_first :: "string \<Rightarrow> string \<Rightarrow> string \<Rightarrow> string" where
  "replace_first pat rep [] = (if pat = [] then rep else [])"
| "replace_first pat rep (c # cs) =
     (if take (length pat) (c # cs) = pat then rep @ drop (length pat) (c # cs)
      else c # replace_first pat rep cs)"

text \<open>
  The characters \<^verbatim>\<open>s.trim()\<close> removes, each by the bytes of its encoding: the white space
  of ECMAScript (U+0009, U+000B, U+000C, U+0020, U+00A0, U+FEFF and the space separators
  U+1680, U+2000 to U+200A, U+202F, U+205F, U+3000) and its line terminators (U+000A,
  U+000D, U+2028, U+2029).
\<close>

definition white_space :: "nat list list" where
  "white_space =
     [[0x09], [0x0A], [0x0B], [0x0C], [0x0D], [0x20],
      [0xC2, 0xA0],
      [0xE1, 0x9A, 0x80],
      [0xE2, 0x80, 0x80], [0xE2, 0x80, 0x81], [0xE2, 0x80, 0x82], [0xE2, 0x80, 0x83],
      [0xE2, 0x80, 0x84], [0xE2, 0x80, 0x85], [0xE2, 0x80, 0x86], [0xE2, 0x80, 0x87],
      [0xE2, 0x80, 0x88], [0xE2, 0x80, 0x89], [0xE2, 0x80, 0x8A],
      [0xE2, 0x80, 0xA8], [0xE2, 0x80, 0xA9], [0xE2, 0x80, 0xAF],
      [0xE2, 0x81, 0x9F],
      [0xE3, 0x80, 0x80],
      [0xEF, 0xBB, 0xBF]]"

text \<open>
  The number of bytes of the entry of the table \<open>ws\<close> that the string starts with, 0 when
  it starts with none; \<open>strip\<close> removes such entries from the start for as long as there
  is one.
\<close>

definition starts_with_one_of :: "nat list list \<Rightarrow> string \<Rightarrow> nat" where
  "starts_with_one_of ws s =
     (case List.find (\<lambda>w. map of_char (take (length w) s) = w) ws of
        None \<Rightarrow> 0
      | Some w \<Rightarrow> length w)"

fun strip :: "nat list list \<Rightarrow> string \<Rightarrow> string" where
  "strip ws [] = []"
| "strip ws (c # cs) =
     (if starts_with_one_of ws (c # cs) = 0 then c # cs
      else strip ws (drop (starts_with_one_of ws (c # cs) - 1) cs))"

text \<open>
  \<^verbatim>\<open>s.trim()\<close>: the white space at the start is removed, then the white space at the end
  (read backwards, an encoding that ends the string is the character that ends it: each
  entry of the table begins with the first byte of a character).
\<close>

definition trim :: "string \<Rightarrow> string" where
  "trim s = rev (strip (map rev white_space) (rev (strip white_space s)))"

section \<open>Phone normalization\<close>

text \<open>
  The first statements of the \<^verbatim>\<open>try\<close> blocks of \<^verbatim>\<open>/send\<close> and of the \<^verbatim>\<open>/send-bulk\<close> loop,
  the same text in both:
  \<^verbatim>\<open>
    let phoneNumber = phone.replace(/[^0-9]/g, '');
    if (!phoneNumber.startsWith('91') && phoneNumber.length === 10) {
      phoneNumber = '91' + phoneNumber;
    }
    const chatId = phoneNumber + '@c.us';
  \<close>
  Only a string has the method \<^verbatim>\<open>replace\<close>: on every other value the call throws a
  \<open>TypeError\<close>.
\<close>

fun phone_replace :: "js \<Rightarrow> js_error + string" where
  "phone_replace (JStr s) = Inr (filter is_digit s)"
| "phone_replace JNull = Inl (TypeError ''Cannot read properties of null (reading 'replace')'')"
| "phone_replace JUndefined = Inl (TypeError ''Cannot read properties of undefined (reading 'replace')'')"
| "phone_replace v = Inl (TypeError ''phone.replace is not a function'')"

definition add_prefix :: "string \<Rightarrow> string" where
  "add_prefix phoneNumber =
     (if \<not> startsWith phoneNumber ''91'' \<and> length phoneNumber = 10
      then ''91'' @ phoneNumber else phoneNumber)"

definition normalizePhone :: "js \<Rightarrow> js_error + string" where
  "normalizePhone phone =
     (case phone_replace phone of
        Inl error \<Rightarrow> Inl error
      | Inr phoneNumber \<Rightarrow> Inr (add_prefix phoneNumber))"

definition chatId_of :: "string \<Rightarrow> string" where
  "chatId_of phoneNumber = phoneNumber @ ''@c.us''"

text \<open>
  Whether the conversion of a value to a string, as a template literal \<^verbatim>\<open>`${v}`\<close> does it,
  returns. It throws a \<open>TypeError\<close> on an object with an own property \<^verbatim>\<open>toString\<close> (a value
  of JSON is never callable, and the \<^verbatim>\<open>valueOf\<close> that is tried next gives no primitive
  value), and on an array with an element whose conversion throws (\<^verbatim>\<open>join\<close> converts every
  element but \<^verbatim>\<open>null\<close> and \<^verbatim>\<open>undefined\<close>). Every other object converts to
  \<^verbatim>\<open>[object Object]\<close>, and every primitive value converts.
\<close>

fun converts :: "js \<Rightarrow> bool" where
  "converts (JObj kvs) = (map_of kvs ''toString'' = None)"
| "converts (JArr xs) = list_all converts xs"
| "converts v = True"

section \<open>The collaborators and the Connection State\<close>

text \<open>
  The commands the handlers issue to their collaborators, in the order they issue them:
  \<^verbatim>\<open>client.sendMessage(chatId, message)\<close>, the pause
  \<^verbatim>\<open>await new Promise(resolve => setTimeout(resolve, ms))\<close>, \<^verbatim>\<open>client.logout()\<close>, the relay
  call \<^verbatim>\<open>fetch(GOOGLE_SCRIPT_URL, ...)\<close> with the fields \<^verbatim>\<open>from\<close> and \<^verbatim>\<open>message\<close> of its
  payload, and \<^verbatim>\<open>message.reply(text)\<close>.
\<close>

datatype call =
    SendMessage string js
  | Pause nat
  | Logout
  | Fetch string string
  | Reply js

text \<open>The \<^verbatim>\<open>Response\<close> of \<^verbatim>\<open>fetch\<close>: what \<^verbatim>\<open>await response.json()\<close> gives.\<close>

datatype response = Response (response_json: "js_error + js")

text \<open>
  The collaborators are outside the repository: each awaited command either resolves
  (\<open>Inr\<close>) or rejects with an error (\<open>Inl\<close>), and which one is for the environment to
  decide. An environment answers a command from the commands the handler has issued before
  it, so that the same command can fail once and succeed later.
\<close>

record env =
  sendMessage :: "call list \<Rightarrow> string \<Rightarrow> js \<Rightarrow> js_error + unit"
  logout :: "call list \<Rightarrow> js_error + unit"
  fetch :: "call list \<Rightarrow> string \<Rightarrow> string \<Rightarrow> js_error + response"
  reply :: "call list \<Rightarrow> js \<Rightarrow> js_error + unit"
  toDataURL :: "string \<Rightarrow> js_error + string"

text \<open>The globals \<^verbatim>\<open>let qrCodeData = ''; let isReady = false;\<close>.\<close>

record state =
  isReady :: bool
  qrCodeData :: string

definition initial_state :: state where
  "initial_state = \<lparr>isReady = False, qrCodeData = []\<rparr>"

text \<open>An inbound message of the Session Client: \<^verbatim>\<open>message.from\<close> and \<^verbatim>\<open>message.body\<close>.\<close>

record message =
  msg_from :: string
  msg_body :: string

text \<open>
  The body of a request after \<^verbatim>\<open>bodyParser.json()\<close>: the middleware parses in strict mode,
  which accepts a JSON object or array only, and leaves the empty object when there is
  nothing to parse.
\<close>

datatype body = Body_Object "(string \<times> js) list" | Body_Array "js list"

text \<open>\<^verbatim>\<open>const { k } = req.body\<close> for the names \<^verbatim>\<open>phone\<close>, \<^verbatim>\<open>message\<close> and \<^verbatim>\<open>recipients\<close>.\<close>

fun body_prop :: "body \<Rightarrow> string \<Rightarrow> js" where
  "body_prop (Body_Object kvs) k = get_prop (JObj kvs) k"
| "body_prop (Body_Array xs) k = JUndefined"

text \<open>What a handler sends: \<^verbatim>\<open>res.status(n).json(v)\<close>; \<^verbatim>\<open>res.json(v)\<close> has the status 200.\<close>

record res =
  status :: nat
  json_body :: js

section \<open>Session lifecycle events\<close>

text \<open>
  \<^verbatim>\<open>handleIncomingMessage\<close>: the \<^verbatim>\<open>try\<close> block first, with the error it throws (if any) and
  the commands it has issued, then the function, whose \<^verbatim>\<open>catch\<close> logs the error and returns.
\<close>

definition handleIncomingMessage_try :: "env \<Rightarrow> message \<Rightarrow> (js_error + unit) \<times> call list" where
  "handleIncomingMessage_try env message =
     (let phoneNumber = replace_first ''@c.us'' [] (msg_from message);
          text = trim (msg_body message);
          posted = [Fetch phoneNumber text]
      in case fetch env [] phoneNumber text of
           Inl error \<Rightarrow> (Inl error, posted)
         | Inr response \<Rightarrow>
             (case response_json response of
                Inl error \<Rightarrow> (Inl error, posted)
              | Inr result \<Rightarrow>
                  (case read_prop result ''reply'' of
                     Inl error \<Rightarrow> (Inl error, posted)
                   | Inr r \<Rightarrow>
                       if truthy r then
                         (case reply env posted r of
                            Inl error \<Rightarrow> (Inl error, posted @ [Reply r])
                          | Inr u \<Rightarrow> (Inr (), posted @ [Reply r]))
                       else (Inr (), posted))))"

definition handleIncomingMessage :: "env \<Rightarrow> message \<Rightarrow> (js_error + unit) \<times> call list" where
  "handleIncomingMessage env message =
     (case handleIncomingMessage_try env message of
        (Inl error, cs) \<Rightarrow> (Inr (), cs)
      | (Inr u, cs) \<Rightarrow> (Inr (), cs))"

text \<open>
  The events \<^verbatim>\<open>initializeWhatsApp\<close> registers handlers for with \<^verbatim>\<open>client.on\<close>, and what the
  handler of each does: whether it returns or throws, the Connection State after it, and
  the commands it has issued.
\<close>

datatype event =
    Qr string
  | Ready
  | Authenticated
  | Auth_failure string
  | Message message
  | Disconnected string

fun client_on :: "env \<Rightarrow> state \<Rightarrow> event \<Rightarrow> (js_error + unit) \<times> state \<times> call list" where
  "client_on env s (Qr qr) =
     (case toDataURL env qr of
        Inl err \<Rightarrow> (Inr (), s, [])
      | Inr url \<Rightarrow> (Inr (), s\<lparr>qrCodeData := url\<rparr>, []))"
| "client_on env s Ready = (Inr (), s\<lparr>isReady := True, qrCodeData := []\<rparr>, [])"
| "client_on env s Authenticated = (Inr (), s, [])"
| "client_on env s (Auth_failure msg) = (Inr (), s\<lparr>isReady := False\<rparr>, [])"
| "client_on env s (Message message) =
     (case handleIncomingMessage env message of (r, cs) \<Rightarrow> (r, s, cs))"
| "client_on env s (Disconnected reason) = (Inr (), s\<lparr>isReady := False, qrCodeData := []\<rparr>, [])"

section \<open>HTTP routes\<close>

text \<open>
  Each handler is given the Connection State at the request (an async handler reads the
  globals before its first \<^verbatim>\<open>await\<close>) and returns the response with the commands it has
  issued; \<^verbatim>\<open>/logout\<close>, the one route that writes the globals, returns the state as well.
\<close>

text \<open>\<^verbatim>\<open>app.get('/qr', ...)\<close>.\<close>

definition qr_handler :: "state \<Rightarrow> res" where
  "qr_handler s =
     (if isReady s then
        \<lparr>status = 200, json_body = JObj
           [(''connected'', JBool True), (''qrCode'', JNull),
            (''message'', JStr ''WhatsApp is already connected'')]\<rparr>
      else if qrCodeData s \<noteq> [] then
        \<lparr>status = 200, json_body = JObj
           [(''connected'', JBool False), (''qrCode'', JStr (qrCodeData s)),
            (''message'', JStr ''Scan this QR code to connect'')]\<rparr>
      else
        \<lparr>status = 200, json_body = JObj
           [(''connected'', JBool False), (''qrCode'', JNull),
            (''message'', JStr ''Generating QR code... Please wait.'')]\<rparr>)"

text \<open>The body \<^verbatim>\<open>{ success: false, error: text }\<close> of the error responses.\<close>

definition failure_body :: "string \<Rightarrow> js" where
  "failure_body t = JObj [(''success'', JBool False), (''error'', JStr t)]"

text \<open>\<^verbatim>\<open>app.post('/send', ...)\<close>.\<close>

definition send_handler :: "env \<Rightarrow> state \<Rightarrow> body \<Rightarrow> res \<times> call list" where
  "send_handler env s b =
     (let phone = body_prop b ''phone''; message = body_prop b ''message'' in
      if \<not> isReady s then
        (\<lparr>status = 400, json_body =
            failure_body ''WhatsApp is not connected. Please scan QR code first.''\<rparr>, [])
      else if \<not> truthy phone \<or> \<not> truthy message then
        (\<lparr>status = 400, json_body = failure_body ''Phone and message are required''\<rparr>, [])
      else
        (case normalizePhone phone of
           Inl error \<Rightarrow>
             (\<lparr>status = 500, json_body = failure_body (error_message error)\<rparr>, [])
         | Inr phoneNumber \<Rightarrow>
             (let chatId = chatId_of phoneNumber in
              case sendMessage env [] chatId message of
                Inl error \<Rightarrow>
                  (\<lparr>status = 500, json_body = failure_body (error_message error)\<rparr>,
                   [SendMessage chatId message])
              | Inr u \<Rightarrow>
                  (\<lparr>status = 200, json_body = JObj
                      [(''success'', JBool True), (''message'', JStr ''Message sent successfully''),
                       (''to'', JStr chatId)]\<rparr>,
                   [SendMessage chatId message]))))"

text \<open>
  \<^verbatim>\<open>app.post('/send-bulk', ...)\<close>. The entries the loop pushes on \<^verbatim>\<open>results\<close>:
  \<^verbatim>\<open>{ phone, success: true }\<close> and \<^verbatim>\<open>{ phone, success: false, error: error.message }\<close>.
\<close>

definition success_result :: "js \<Rightarrow> js" where
  "success_result phone = JObj [(''phone'', phone), (''success'', JBool True)]"

definition failure_result :: "js \<Rightarrow> js_error \<Rightarrow> js" where
  "failure_result phone error =
     JObj [(''phone'', phone), (''success'', JBool False), (''error'', JStr (error_message error))]"

text \<open>
  The \<^verbatim>\<open>catch\<close> block of the loop:
  \<^verbatim>\<open>
    console.error(`... Failed to send to ${phone}:`, error.message);
    results.push({ phone, success: false, error: error.message });
  \<close>
  The template literal converts the recipient to a string first; when that throws, the
  error leaves the \<^verbatim>\<open>catch\<close> block and nothing is pushed.
\<close>

definition catch_block :: "js \<Rightarrow> js_error \<Rightarrow> js_error + js" where
  "catch_block phone error =
     (if converts phone then Inr (failure_result phone error)
      else Inl (TypeError ''Cannot convert object to primitive value''))"

text \<open>
  One pass of the loop \<^verbatim>\<open>for (const phone of recipients) { try { ... } catch (error) { ... } }\<close>,
  after the commands \<open>cs\<close>: the entry it pushes on \<^verbatim>\<open>results\<close>, or the error that leaves
  its \<^verbatim>\<open>catch\<close> block, and the commands it issues. The pause stands in the \<^verbatim>\<open>try\<close> block
  after the \<^verbatim>\<open>push\<close> of the success entry and the log of the recipient, which is a string
  there (only a string is normalized) and converts.
\<close>

definition loop_pass :: "env \<Rightarrow> js \<Rightarrow> call list \<Rightarrow> js \<Rightarrow> (js_error + js) \<times> call list" where
  "loop_pass env message cs phone =
     (case normalizePhone phone of
        Inl error \<Rightarrow> (catch_block phone error, [])
      | Inr phoneNumber \<Rightarrow>
          (case sendMessage env cs (chatId_of phoneNumber) message of
             Inl error \<Rightarrow>
               (catch_block phone error, [SendMessage (chatId_of phoneNumber) message])
           | Inr u \<Rightarrow>
               (Inr (success_result phone),
                [SendMessage (chatId_of phoneNumber) message, Pause 2000])))"

text \<open>
  The loop, from the recipients still to visit, the \<^verbatim>\<open>results\<close> so far and the commands
  issued so far: the \<^verbatim>\<open>results\<close> at its end, or the error that a pass has thrown and that
  has ended it.
\<close>

fun send_bulk_loop ::
  "env \<Rightarrow> js \<Rightarrow> js list \<Rightarrow> js list \<Rightarrow> call list \<Rightarrow> (js_error + js list) \<times> call list" where
  "send_bulk_loop env message [] results cs = (Inr results, cs)"
| "send_bulk_loop env message (phone # recipients) results cs =
     (case loop_pass env message cs phone of
        (Inl thrown, issued) \<Rightarrow> (Inl thrown, cs @ issued)
      | (Inr entry, issued) \<Rightarrow>
          send_bulk_loop env message recipients (results @ [entry]) (cs @ issued))"

text \<open>\<^verbatim>\<open>r => r.success\<close>, the predicate of the two \<^verbatim>\<open>filter\<close> calls.\<close>

definition r_success :: "js \<Rightarrow> bool" where
  "r_success r = truthy (get_prop r ''success'')"

text \<open>
  The handler is an async function: \<open>Inl\<close> is the error it throws before it has sent a
  response (its promise is rejected, and the handler answers nothing), \<open>Inr\<close> the
  response it sends.
\<close>

definition send_bulk_handler :: "env \<Rightarrow> state \<Rightarrow> body \<Rightarrow> (js_error + res) \<times> call list" where
  "send_bulk_handler env s b =
     (let recipients = body_prop b ''recipients''; message = body_prop b ''message'' in
      if \<not> isReady s then
        (Inr \<lparr>status = 400, json_body = failure_body ''WhatsApp is not connected''\<rparr>, [])
      else if \<not> truthy recipients \<or> \<not> isArray recipients \<or> \<not> truthy message then
        (Inr \<lparr>status = 400, json_body =
            failure_body ''Recipients array and message are required''\<rparr>, [])
      else
        (case send_bulk_loop env message (elements recipients) [] [] of
           (Inl thrown, cs) \<Rightarrow> (Inl thrown, cs)
         | (Inr results, cs) \<Rightarrow>
             (Inr \<lparr>status = 200, json_body = JObj
                 [(''success'', JBool True), (''results'', JArr results),
                  (''sent'', JNum (real (length (filter r_success results)))),
                  (''failed'', JNum (real (length (filter (\<lambda>r. \<not> r_success r) results))))]\<rparr>,
              cs)))"

text \<open>\<^verbatim>\<open>app.post('/logout', ...)\<close>.\<close>

definition logout_handler :: "env \<Rightarrow> state \<Rightarrow> res \<times> state \<times> call list" where
  "logout_handler env s =
     (case logout env [] of
        Inl error \<Rightarrow>
          (\<lparr>status = 500, json_body = failure_body (error_message error)\<rparr>, s, [Logout])
      | Inr u \<Rightarrow>
          (\<lparr>status = 200, json_body = JObj
              [(''success'', JBool True), (''message'', JStr ''Logged out successfully'')]\<rparr>,
           s\<lparr>isReady := False, qrCodeData := []\<rparr>, [Logout]))"

section \<open>Notions the properties are stated in\<close>

text \<open>
  The normalization as the specification words it: strip every character that is not one
  of the ten digits; a digit string of exactly 10 digits that does not start with
  \<^verbatim>\<open>91\<close> gets the prefix \<^verbatim>\<open>91\<close>; every other digit string stays as it is.
\<close>

definition spec_normalize :: "string \<Rightarrow> string" where
  "spec_normalize phone =
     (let digits = filter (\<lambda>c. c \<in> set ''0123456789'') phone
      in if length digits = 10 \<and> take 2 digits \<noteq> ''91'' then ''91'' @ digits else digits)"

fun is_send :: "call \<Rightarrow> bool" where
  "is_send (SendMessage c m) = True"
| "is_send c = False"

fun is_fetch :: "call \<Rightarrow> bool" where
  "is_fetch (Fetch f t) = True"
| "is_fetch c = False"

fun is_reply :: "call \<Rightarrow> bool" where
  "is_reply (Reply r) = True"
| "is_reply c = False"

text \<open>
  The send command one pass of the \<^verbatim>\<open>/send-bulk\<close> loop issues for a recipient: none when
  the normalization throws.
\<close>

definition send_attempt :: "js \<Rightarrow> js \<Rightarrow> call option" where
  "send_attempt message phone =
     (case normalizePhone phone of
        Inl e \<Rightarrow> None
      | Inr n \<Rightarrow> Some (SendMessage (chatId_of n) message))"

text \<open>
  A sequence of commands, issued after the commands \<open>h\<close>, is \<open>paced\<close> when it holds send
  commands and pauses only, every send that the environment resolves is directly followed
  by a pause of 2000 ms, and every send that it rejects is directly followed by the next
  send or by the end of the sequence.
\<close>

fun paced :: "env \<Rightarrow> call list \<Rightarrow> call list \<Rightarrow> bool" where
  "paced env h [] = True"
| "paced env h (SendMessage c m # rest) =
     (case sendMessage env h c m of
        Inr u \<Rightarrow>
          (case rest of
             Pause n # rest' \<Rightarrow> n = 2000 \<and> paced env (h @ [SendMessage c m, Pause n]) rest'
           | _ \<Rightarrow> False)
      | Inl e \<Rightarrow>
          (case rest of
             Pause n # rest' \<Rightarrow> False
           | _ \<Rightarrow> paced env (h @ [SendMessage c m]) rest))"
| "paced env h (c # rest) = False"

section \<open>Concrete environments, states and requests\<close>

text \<open>Every command resolves, and the relay answers \<^verbatim>\<open>{"reply": "hello"}\<close>.\<close>

definition env_ok :: env where
  "env_ok =
     \<lparr>sendMessage = (\<lambda>h c m. Inr ()),
      logout = (\<lambda>h. Inr ()),
      fetch = (\<lambda>h f t. Inr (Response (Inr (JObj [(''reply'', JStr ''hello'')])))),
      reply = (\<lambda>h r. Inr ()),
      toDataURL = (\<lambda>q. Inr (''data:image/png;base64,'' @ q))\<rparr>"

text \<open>Every command is rejected, the relay call with a network error.\<close>

definition env_down :: env where
  "env_down =
     \<lparr>sendMessage = (\<lambda>h c m. Inl (Error ''Session closed'')),
      logout = (\<lambda>h. Inl (Error ''Session closed'')),
      fetch = (\<lambda>h f t. Inl (Error ''network timeout'')),
      reply = (\<lambda>h r. Inl (Error ''Session closed'')),
      toDataURL = (\<lambda>q. Inl (Error ''no data''))\<rparr>"

text \<open>The send to one chat identifier is rejected; the relay answers with a page of HTML.\<close>

definition env_second_fails :: env where
  "env_second_fails =
     \<lparr>sendMessage =
        (\<lambda>h c m. if c = ''919876543211@c.us'' then Inl (Error ''invalid wid'') else Inr ()),
      logout = (\<lambda>h. Inr ()),
      fetch = (\<lambda>h f t. Inr (Response (Inl (Error ''Unexpected token < in JSON at position 0'')))),
      reply = (\<lambda>h r. Inr ()),
      toDataURL = (\<lambda>q. Inr (''data:image/png;base64,'' @ q))\<rparr>"

text \<open>
  The first send of a handler is rejected and the later ones resolve; the relay answers
  \<^verbatim>\<open>{"reply": ""}\<close>.
\<close>

definition env_first_fails :: env where
  "env_first_fails =
     \<lparr>sendMessage = (\<lambda>h c m. if h = [] then Inl (Error ''Evaluation failed'') else Inr ()),
      logout = (\<lambda>h. Inr ()),
      fetch = (\<lambda>h f t. Inr (Response (Inr (JObj [(''reply'', JStr [])])))),
      reply = (\<lambda>h r. Inr ()),
      toDataURL = (\<lambda>q. Inr (''data:image/png;base64,'' @ q))\<rparr>"

definition ready_state :: state where
  "ready_state = \<lparr>isReady = True, qrCodeData = []\<rparr>"

definition pairing_state :: state where
  "pairing_state = \<lparr>isReady = False, qrCodeData = ''data:image/png;base64,iVBORw0KGgo=''\<rparr>"

definition stale_state :: state where
  "stale_state = \<lparr>isReady = True, qrCodeData = ''data:image/png;base64,iVBORw0KGgo=''\<rparr>"

definition one_phone :: body where
  "one_phone = Body_Object [(''phone'', JStr ''+91-98765-43210''), (''message'', JStr ''hi'')]"

definition no_recipients :: body where
  "no_recipients = Body_Object [(''recipients'', JArr []), (''message'', JStr ''hi'')]"

definition two_recipients :: body where
  "two_recipients =
     Body_Object
       [(''recipients'', JArr [JStr ''9876543210'', JStr ''9876543211'']),
        (''message'', JStr ''hi'')]"

definition three_recipients :: body where
  "three_recipients =
     Body_Object
       [(''recipients'', JArr [JStr ''9876543210'', JStr ''98765-43211'', JStr ''919876543212'']),
        (''message'', JStr ''hi'')]"

text \<open>The recipients \<^verbatim>\<open>[{"toString": 1}, "9876543210"]\<close>.\<close>

definition odd_recipients :: body where
  "odd_recipients =
     Body_Object
       [(''recipients'', JArr [JObj [(''toString'', JNum 1)], JStr ''9876543210'']),
        (''message'', JStr ''hi'')]"

text \<open>The recipients \<^verbatim>\<open>[9876543210, null, {"name": "x"}, "9876543210"]\<close>.\<close>

definition mixed_recipients :: body where
  "mixed_recipients =
     Body_Object
       [(''recipients'',
         JArr [JNum 9876543210, JNull, JObj [(''name'', JStr ''x'')], JStr ''9876543210'']),
        (''message'', JStr ''hi'')]"

text \<open>A body with a no-break space (U+00A0) and a space before its text, and two after.\<close>

definition inbound :: message where
  "inbound =
     \<lparr>msg_from = ''919876543210@c.us'',
      msg_body = [CHR 0xC2, CHR 0xA0] @ '' fees?  ''\<rparr>"

section \<open>Phone normalization\<close>

lemma is_digit_iff: "is_digit c \<longleftrightarrow> c \<in> set ''0123456789''"
proof (cases c)
  case (Char b0 b1 b2 b3 b4 b5 b6 b7)
  then show ?thesis
    unfolding is_digit_def
    by (cases b0; cases b1; cases b2; cases b3; cases b4; cases b5; cases b6; cases b7; simp)
qed

lemma filter_is_digit: "filter is_digit s = filter (\<lambda>c. c \<in> set ''0123456789'') s"
  by (rule filter_cong) (simp_all add: is_digit_iff)

lemma normalizePhone_string: "normalizePhone (JStr phone) = Inr (spec_normalize phone)"
  unfolding normalizePhone_def spec_normalize_def add_prefix_def startsWith_def
  by (simp add: filter_is_digit Let_def numeral_2_eq_2 del: set_simps)

lemma normalizePhone_Inr: "normalizePhone phone = Inr n \<Longrightarrow> \<exists>p. phone = JStr p"
  by (cases phone) (simp_all add: normalizePhone_def)

lemma send_attempt_string:
  "send_attempt m (JStr p) = Some (SendMessage (spec_normalize p @ ''@c.us'') m)"
  by (simp add: send_attempt_def normalizePhone_string chatId_of_def)

lemma send_attempts_strings:
  "List.map_filter (send_attempt m) (map JStr ps) =
     map (\<lambda>p. SendMessage (spec_normalize p @ ''@c.us'') m) ps"
  by (induction ps) (simp_all add: send_attempt_string)

lemma strings_convert: "list_all converts (map JStr ps)"
  by (induction ps) simp_all

lemmas run_simps =
  normalizePhone_def add_prefix_def startsWith_def is_digit_def chatId_of_def Let_def
  success_result_def failure_result_def r_success_def loop_pass_def catch_block_def

section \<open>The loop of /send-bulk\<close>

text \<open>The three ways of one pass.\<close>

lemma loop_pass_cases:
  obtains
    (throws) e where "normalizePhone phone = Inl e" "send_attempt m phone = None"
      "loop_pass env m cs phone = (catch_block phone e, [])"
  | (rejected) n e where "normalizePhone phone = Inr n"
      "send_attempt m phone = Some (SendMessage (chatId_of n) m)"
      "sendMessage env cs (chatId_of n) m = Inl e" "converts phone"
      "loop_pass env m cs phone = (Inr (failure_result phone e), [SendMessage (chatId_of n) m])"
  | (resolved) n where "normalizePhone phone = Inr n"
      "send_attempt m phone = Some (SendMessage (chatId_of n) m)"
      "sendMessage env cs (chatId_of n) m = Inr ()"
      "loop_pass env m cs phone =
         (Inr (success_result phone), [SendMessage (chatId_of n) m, Pause 2000])"
proof (cases "normalizePhone phone")
  case (Inl e)
  then show ?thesis
    by (intro throws [of e]) (simp_all add: loop_pass_def send_attempt_def)
next
  case (Inr n)
  then obtain p where "phone = JStr p"
    by (auto dest: normalizePhone_Inr)
  then have conv: "converts phone"
    by simp
  show ?thesis
  proof (cases "sendMessage env cs (chatId_of n) m")
    case (Inl e)
    with Inr conv show ?thesis
      by (intro rejected [of n e]) (simp_all add: loop_pass_def send_attempt_def catch_block_def)
  next
    case resolved': (Inr u)
    with Inr show ?thesis
      by (intro resolved [of n]) (simp_all add: loop_pass_def send_attempt_def)
  qed
qed

lemma paced_send_failed:
  assumes "sendMessage env h c m = Inl e" and "paced env (h @ [SendMessage c m]) rest"
  shows "paced env h (SendMessage c m # rest)"
proof (cases rest)
  case Nil
  with assms show ?thesis by simp
next
  case (Cons a rest')
  with assms show ?thesis by (cases a) simp_all
qed

text \<open>Whether the loop ends or is cut short by a throw, its commands are paced.\<close>

lemma loop_paced:
  "\<exists>suffix. snd (send_bulk_loop env m rs res0 cs0) = cs0 @ suffix \<and> paced env cs0 suffix"
proof (induction rs arbitrary: res0 cs0)
  case Nil
  then show ?case by simp
next
  case (Cons phone rs)
  show ?case
  proof (cases rule: loop_pass_cases [of phone m env cs0])
    case (throws e)
    show ?thesis
    proof (cases "converts phone")
      case True
      with throws Cons.IH [of "res0 @ [failure_result phone e]" cs0] show ?thesis
        by (simp add: catch_block_def)
    next
      case False
      with throws show ?thesis
        by (simp add: catch_block_def)
    qed
  next
    case (rejected n e)
    let ?c = "SendMessage (chatId_of n) m"
    from Cons.IH [of "res0 @ [failure_result phone e]" "cs0 @ [?c]"]
    obtain suffix where s:
      "snd (send_bulk_loop env m rs (res0 @ [failure_result phone e]) (cs0 @ [?c])) =
         (cs0 @ [?c]) @ suffix"
      "paced env (cs0 @ [?c]) suffix"
      by blast
    from rejected(3) s(2) have "paced env cs0 (?c # suffix)"
      by (rule paced_send_failed)
    with s rejected show ?thesis
      by (intro exI [of _ "?c # suffix"]) simp
  next
    case (resolved n)
    let ?c = "SendMessage (chatId_of n) m"
    from Cons.IH [of "res0 @ [success_result phone]" "cs0 @ [?c, Pause 2000]"]
    obtain suffix where s:
      "snd (send_bulk_loop env m rs (res0 @ [success_result phone]) (cs0 @ [?c, Pause 2000])) =
         (cs0 @ [?c, Pause 2000]) @ suffix"
      "paced env (cs0 @ [?c, Pause 2000]) suffix"
      by blast
    with resolved show ?thesis
      by (intro exI [of _ "?c # Pause 2000 # suffix"]) simp
  qed
qed

text \<open>
  When every recipient converts to a string, the loop ends: it pushes one entry per
  recipient, each of them the entry of the pass for that recipient after the commands of
  the passes before it, and the send commands are those of the recipients, in order.
\<close>

lemma loop_pass_converts:
  assumes "converts phone"
  obtains entry issued where "loop_pass env m cs phone = (Inr entry, issued)"
    "get_prop entry ''phone'' = phone"
    "filter is_send issued = (case send_attempt m phone of None \<Rightarrow> [] | Some c \<Rightarrow> [c])"
proof (cases rule: loop_pass_cases [of phone m env cs])
  case (throws e)
  with assms that [of "failure_result phone e" "[]"] show ?thesis
    by (simp add: catch_block_def failure_result_def)
next
  case (rejected n e)
  with that [of "failure_result phone e" "[SendMessage (chatId_of n) m]"] show ?thesis
    by (simp add: failure_result_def)
next
  case (resolved n)
  with that [of "success_result phone" "[SendMessage (chatId_of n) m, Pause 2000]"] show ?thesis
    by (simp add: success_result_def)
qed

lemma loop_convertible:
  assumes "list_all converts rs"
  shows "\<exists>new segs.
     send_bulk_loop env m rs res0 cs0 = (Inr (res0 @ new), cs0 @ concat segs) \<and>
     length new = length rs \<and> length segs = length rs \<and>
     map (\<lambda>r. get_prop r ''phone'') new = rs \<and>
     filter is_send (concat segs) = List.map_filter (send_attempt m) rs \<and>
     (\<forall>i<length rs.
        loop_pass env m (cs0 @ concat (take i segs)) (rs ! i) = (Inr (new ! i), segs ! i))"
  using assms
proof (induction rs arbitrary: res0 cs0)
  case Nil
  then show ?case by simp
next
  case (Cons phone rs)
  then have "converts phone" and rest: "list_all converts rs"
    by simp_all
  from \<open>converts phone\<close> obtain entry issued
    where pass: "loop_pass env m cs0 phone = (Inr entry, issued)"
    and phone: "get_prop entry ''phone'' = phone"
    and sends: "filter is_send issued =
      (case send_attempt m phone of None \<Rightarrow> [] | Some c \<Rightarrow> [c])"
    by (rule loop_pass_converts)
  from Cons.IH [OF rest, of "res0 @ [entry]" "cs0 @ issued"] obtain new segs where
    run: "send_bulk_loop env m rs (res0 @ [entry]) (cs0 @ issued) =
        (Inr ((res0 @ [entry]) @ new), (cs0 @ issued) @ concat segs)"
    and len: "length new = length rs" "length segs = length rs"
    and phones: "map (\<lambda>r. get_prop r ''phone'') new = rs"
    and rest_sends: "filter is_send (concat segs) = List.map_filter (send_attempt m) rs"
    and passes: "\<forall>i<length rs.
        loop_pass env m ((cs0 @ issued) @ concat (take i segs)) (rs ! i) = (Inr (new ! i), segs ! i)"
    by blast
  have "\<forall>i<length (phone # rs).
      loop_pass env m (cs0 @ concat (take i (issued # segs))) ((phone # rs) ! i) =
        (Inr ((entry # new) ! i), (issued # segs) ! i)"
  proof (intro allI impI)
    fix i
    assume "i < length (phone # rs)"
    then show "loop_pass env m (cs0 @ concat (take i (issued # segs))) ((phone # rs) ! i) =
        (Inr ((entry # new) ! i), (issued # segs) ! i)"
      using pass passes by (cases i) simp_all
  qed
  moreover have "filter is_send (concat (issued # segs)) =
      List.map_filter (send_attempt m) (phone # rs)"
    using sends rest_sends by (simp split: option.splits)
  ultimately show ?case
    using pass run len phones phone
    by (intro exI [of _ "entry # new"] exI [of _ "issued # segs"]) simp
qed

lemma entry_of_pass:
  assumes "loop_pass env m cs phone = (Inr entry, issued)"
  shows "(entry = success_result phone \<and> r_success entry) \<or>
         (\<exists>e. entry = failure_result phone e \<and> \<not> r_success entry)"
proof (cases rule: loop_pass_cases [of phone m env cs])
  case (throws e)
  with assms show ?thesis
    by (auto simp: catch_block_def failure_result_def r_success_def split: if_splits)
next
  case (rejected n e)
  with assms show ?thesis
    by (auto simp: failure_result_def r_success_def)
next
  case (resolved n)
  with assms show ?thesis
    by (auto simp: success_result_def r_success_def)
qed

section \<open>The handler of /send-bulk\<close>

lemma bulk_calls:
  assumes "isReady s" and "body_prop b ''recipients'' = JArr rs"
    and "truthy (body_prop b ''message'')"
  shows "snd (send_bulk_handler env s b) =
     snd (send_bulk_loop env (body_prop b ''message'') rs [] [])"
  using assms by (simp add: send_bulk_handler_def Let_def split: prod.splits sum.splits)

lemma bulk_convertible:
  assumes "isReady s" and "body_prop b ''recipients'' = JArr rs"
    and "truthy (body_prop b ''message'')" and "list_all converts rs"
  shows "\<exists>results segs.
     send_bulk_handler env s b =
       (Inr \<lparr>status = 200, json_body = JObj
           [(''success'', JBool True), (''results'', JArr results),
            (''sent'', JNum (real (length (filter r_success results)))),
            (''failed'', JNum (real (length (filter (\<lambda>r. \<not> r_success r) results))))]\<rparr>,
        concat segs) \<and>
     length results = length rs \<and> length segs = length rs \<and>
     map (\<lambda>r. get_prop r ''phone'') results = rs \<and>
     length (filter r_success results) + length (filter (\<lambda>r. \<not> r_success r) results) = length rs \<and>
     filter is_send (concat segs) = List.map_filter (send_attempt (body_prop b ''message'')) rs \<and>
     (\<forall>i<length rs.
        loop_pass env (body_prop b ''message'') (concat (take i segs)) (rs ! i) =
          (Inr (results ! i), segs ! i))"
proof -
  let ?m = "body_prop b ''message''"
  from loop_convertible [OF assms(4), of env ?m "[]" "[]"] obtain results segs where
    run: "send_bulk_loop env ?m rs [] [] = (Inr results, concat segs)"
    and len: "length results = length rs" "length segs = length rs"
    and phones: "map (\<lambda>r. get_prop r ''phone'') results = rs"
    and sends: "filter is_send (concat segs) = List.map_filter (send_attempt ?m) rs"
    and passes: "\<forall>i<length rs.
        loop_pass env ?m (concat (take i segs)) (rs ! i) = (Inr (results ! i), segs ! i)"
    by auto
  from len have count: "length (filter r_success results) +
      length (filter (\<lambda>r. \<not> r_success r) results) = length rs"
    by (simp add: sum_length_filter_compl)
  from assms(1-3) run have "send_bulk_handler env s b =
       (Inr \<lparr>status = 200, json_body = JObj
           [(''success'', JBool True), (''results'', JArr results),
            (''sent'', JNum (real (length (filter r_success results)))),
            (''failed'', JNum (real (length (filter (\<lambda>r. \<not> r_success r) results))))]\<rparr>,
        concat segs)"
    by (simp add: send_bulk_handler_def Let_def)
  with len phones count sends passes show ?thesis
    by blast
qed

lemma bulk_sends:
  assumes "isReady s" and "body_prop b ''recipients'' = JArr (map JStr ps)"
    and "truthy (body_prop b ''message'')"
  shows "filter is_send (snd (send_bulk_handler env s b)) =
     map (\<lambda>p. SendMessage (spec_normalize p @ ''@c.us'') (body_prop b ''message'')) ps"
proof -
  from bulk_convertible [OF assms strings_convert, of env] obtain segs where
    "snd (send_bulk_handler env s b) = concat segs"
    "filter is_send (concat segs) =
       List.map_filter (send_attempt (body_prop b ''message'')) (map JStr ps)"
    by auto
  then show ?thesis
    by (simp add: send_attempts_strings)
qed

lemma three_run:
  "send_bulk_handler env_second_fails ready_state three_recipients =
     (Inr \<lparr>status = 200, json_body = JObj
         [(''success'', JBool True),
          (''results'', JArr
             [JObj [(''phone'', JStr ''9876543210''), (''success'', JBool True)],
              JObj [(''phone'', JStr ''98765-43211''), (''success'', JBool False),
                    (''error'', JStr ''invalid wid'')],
              JObj [(''phone'', JStr ''919876543212''), (''success'', JBool True)]]),
          (''sent'', JNum 2), (''failed'', JNum 1)]\<rparr>,
      [SendMessage ''919876543210@c.us'' (JStr ''hi''), Pause 2000,
       SendMessage ''919876543211@c.us'' (JStr ''hi''),
       SendMessage ''919876543212@c.us'' (JStr ''hi''), Pause 2000])"
  by (simp add: send_bulk_handler_def run_simps env_second_fails_def ready_state_def
      three_recipients_def)

lemma two_run:
  "snd (send_bulk_handler env_first_fails ready_state two_recipients) =
     [SendMessage ''919876543210@c.us'' (JStr ''hi''),
      SendMessage ''919876543211@c.us'' (JStr ''hi''), Pause 2000]"
  by (simp add: send_bulk_handler_def run_simps env_first_fails_def ready_state_def
      two_recipients_def)

lemma one_run:
  "send_handler env_ok ready_state one_phone =
     (\<lparr>status = 200, json_body = JObj
         [(''success'', JBool True), (''message'', JStr ''Message sent successfully''),
          (''to'', JStr ''919876543210@c.us'')]\<rparr>,
      [SendMessage ''919876543210@c.us'' (JStr ''hi'')])"
  by (simp add: send_handler_def run_simps env_ok_def ready_state_def one_phone_def)

lemma mixed_run:
  "send_bulk_handler env_ok ready_state mixed_recipients =
     (Inr \<lparr>status = 200, json_body = JObj
         [(''success'', JBool True),
          (''results'', JArr
             [JObj [(''phone'', JNum 9876543210), (''success'', JBool False),
                    (''error'', JStr ''phone.replace is not a function'')],
              JObj [(''phone'', JNull), (''success'', JBool False),
                    (''error'', JStr ''Cannot read properties of null (reading 'replace')'')],
              JObj [(''phone'', JObj [(''name'', JStr ''x'')]), (''success'', JBool False),
                    (''error'', JStr ''phone.replace is not a function'')],
              JObj [(''phone'', JStr ''9876543210''), (''success'', JBool True)]]),
          (''sent'', JNum 1), (''failed'', JNum 3)]\<rparr>,
      [SendMessage ''919876543210@c.us'' (JStr ''hi''), Pause 2000])"
  by (simp add: send_bulk_handler_def run_simps env_ok_def ready_state_def mixed_recipients_def)

lemma inbound_trim: "trim (msg_body inbound) = ''fees?''"
  by (simp add: inbound_def trim_def white_space_def starts_with_one_of_def)

section \<open>The claims\<close>

text \<open>
  C1. Phone normalization, the same in \<^verbatim>\<open>/send\<close> and \<^verbatim>\<open>/send-bulk\<close>: for every phone
  string the non-digit characters are stripped; a result of exactly 10 digits that does
  not start with \<^verbatim>\<open>91\<close> gets the prefix \<^verbatim>\<open>91\<close>, and every other digit string is passed
  through. So \<^verbatim>\<open>9876543210\<close> becomes \<^verbatim>\<open>919876543210\<close>, \<^verbatim>\<open>919876543210\<close> stays, and
  \<^verbatim>\<open>+91-98765-43210\<close> becomes \<^verbatim>\<open>919876543210\<close>. Both routes address their send commands
  to the normalized string (with the suffix \<^verbatim>\<open>@c.us\<close>).
\<close>

theorem phone_normalization:
  "normalizePhone (JStr phone) = Inr (spec_normalize phone) \<and>
   normalizePhone (JStr ''9876543210'') = Inr ''919876543210'' \<and>
   normalizePhone (JStr ''919876543210'') = Inr ''919876543210'' \<and>
   normalizePhone (JStr ''+91-98765-43210'') = Inr ''919876543210'' \<and>
   (isReady s \<and> body_prop b ''phone'' = JStr phone \<and> phone \<noteq> [] \<and>
    truthy (body_prop b ''message'') \<longrightarrow>
      snd (send_handler env s b) =
        [SendMessage (spec_normalize phone @ ''@c.us'') (body_prop b ''message'')]) \<and>
   (isReady s \<and> body_prop b' ''recipients'' = JArr (map JStr phones) \<and>
    truthy (body_prop b' ''message'') \<longrightarrow>
      filter is_send (snd (send_bulk_handler env s b')) =
        map (\<lambda>p. SendMessage (spec_normalize p @ ''@c.us'') (body_prop b' ''message'')) phones)"
proof -
  have examples:
    "normalizePhone (JStr ''9876543210'') = Inr ''919876543210''"
    "normalizePhone (JStr ''919876543210'') = Inr ''919876543210''"
    "normalizePhone (JStr ''+91-98765-43210'') = Inr ''919876543210''"
    by (simp_all add: run_simps)
  have single: "snd (send_handler env s b) =
      [SendMessage (spec_normalize phone @ ''@c.us'') (body_prop b ''message'')]"
    if "isReady s" "body_prop b ''phone'' = JStr phone" "phone \<noteq> []"
      "truthy (body_prop b ''message'')"
    using that
    by (cases "sendMessage env [] (chatId_of (spec_normalize phone)) (body_prop b ''message'')")
      (simp_all add: send_handler_def Let_def normalizePhone_string chatId_of_def)
  have bulk: "filter is_send (snd (send_bulk_handler env s b')) =
      map (\<lambda>p. SendMessage (spec_normalize p @ ''@c.us'') (body_prop b' ''message'')) phones"
    if "isReady s" "body_prop b' ''recipients'' = JArr (map JStr phones)"
      "truthy (body_prop b' ''message'')"
    using that by (rule bulk_sends)
  from normalizePhone_string [of phone] examples single bulk show ?thesis
    by blast
qed

theorem phone_normalization_witness:
  "isReady ready_state \<and> body_prop one_phone ''phone'' = JStr ''+91-98765-43210'' \<and>
   ''+91-98765-43210'' \<noteq> [] \<and> truthy (body_prop one_phone ''message'') \<and>
   snd (send_handler env_ok ready_state one_phone) =
     [SendMessage ''919876543210@c.us'' (JStr ''hi'')] \<and>
   body_prop three_recipients ''recipients'' =
     JArr (map JStr [''9876543210'', ''98765-43211'', ''919876543212'']) \<and>
   truthy (body_prop three_recipients ''message'') \<and>
   filter is_send (snd (send_bulk_handler env_ok ready_state three_recipients)) =
     [SendMessage ''919876543210@c.us'' (JStr ''hi''),
      SendMessage ''919876543211@c.us'' (JStr ''hi''),
      SendMessage ''919876543212@c.us'' (JStr ''hi'')]"
  using phone_normalization [of "''+91-98765-43210''" ready_state one_phone env_ok
      three_recipients "[''9876543210'', ''98765-43211'', ''919876543212'']"]
  by (simp add: ready_state_def one_phone_def three_recipients_def spec_normalize_def)

text \<open>
  What the loop of \<^verbatim>\<open>/send-bulk\<close> does when every recipient converts to a string (every
  string, number, boolean and \<^verbatim>\<open>null\<close>, every object without an own \<^verbatim>\<open>toString\<close>): the
  response is 200, \<^verbatim>\<open>results\<close> has one entry per recipient in the order of the
  recipients, the entry of a recipient is the one its own pass has pushed after the
  commands of the passes before it (the success entry, or the failure entry with the text
  of the error), a send command is issued in order for every recipient that is a string,
  and \<^verbatim>\<open>sent + failed\<close> is the number of recipients.
\<close>

lemma send_bulk_visits_every_convertible_recipient:
  assumes "isReady s" and "body_prop b ''recipients'' = JArr rs"
    and "truthy (body_prop b ''message'')" and "list_all converts rs"
  shows "\<exists>results segs.
     send_bulk_handler env s b =
       (Inr \<lparr>status = 200, json_body = JObj
           [(''success'', JBool True), (''results'', JArr results),
            (''sent'', JNum (real (length (filter r_success results)))),
            (''failed'', JNum (real (length (filter (\<lambda>r. \<not> r_success r) results))))]\<rparr>,
        concat segs) \<and>
     length results = length rs \<and> length segs = length rs \<and>
     map (\<lambda>r. get_prop r ''phone'') results = rs \<and>
     length (filter r_success results) + length (filter (\<lambda>r. \<not> r_success r) results) = length rs \<and>
     filter is_send (concat segs) = List.map_filter (send_attempt (body_prop b ''message'')) rs \<and>
     (\<forall>i<length rs.
        loop_pass env (body_prop b ''message'') (concat (take i segs)) (rs ! i) =
          (Inr (results ! i), segs ! i) \<and>
        ((results ! i = success_result (rs ! i) \<and> r_success (results ! i)) \<or>
         (\<exists>e. results ! i = failure_result (rs ! i) e \<and> \<not> r_success (results ! i))))"
proof -
  from bulk_convertible [OF assms, of env] obtain results segs where
    run: "send_bulk_handler env s b =
       (Inr \<lparr>status = 200, json_body = JObj
           [(''success'', JBool True), (''results'', JArr results),
            (''sent'', JNum (real (length (filter r_success results)))),
            (''failed'', JNum (real (length (filter (\<lambda>r. \<not> r_success r) results))))]\<rparr>,
        concat segs)"
    and rest: "length results = length rs" "length segs = length rs"
      "map (\<lambda>r. get_prop r ''phone'') results = rs"
      "length (filter r_success results) + length (filter (\<lambda>r. \<not> r_success r) results) = length rs"
      "filter is_send (concat segs) = List.map_filter (send_attempt (body_prop b ''message'')) rs"
    and passes: "\<forall>i<length rs.
        loop_pass env (body_prop b ''message'') (concat (take i segs)) (rs ! i) =
          (Inr (results ! i), segs ! i)"
    by blast
  from passes have "\<forall>i<length rs.
        loop_pass env (body_prop b ''message'') (concat (take i segs)) (rs ! i) =
          (Inr (results ! i), segs ! i) \<and>
        ((results ! i = success_result (rs ! i) \<and> r_success (results ! i)) \<or>
         (\<exists>e. results ! i = failure_result (rs ! i) e \<and> \<not> r_success (results ! i)))"
    by (auto dest: entry_of_pass)
  with run rest show ?thesis
    by blast
qed

text \<open>
  C2. The claim: for every \<^verbatim>\<open>/send-bulk\<close> request with \<open>ready = true\<close> and a valid body the
  handler goes through all recipients in order, a failure on one recipient does not stop
  the loop, and \<^verbatim>\<open>sent + failed\<close> is the number of recipients. The code departs from it
  where a recipient does not convert to a string: for the valid body with the recipients
  \<^verbatim>\<open>[{"toString": 1}, "9876543210"]\<close> the normalization of the first recipient throws, the
  \<^verbatim>\<open>catch\<close> block throws in turn while it logs the recipient, and the handler ends with
  that error: it sends no response, pushes no entry and issues no send command, so the
  second recipient is never attempted, whatever the collaborators do.
\<close>

theorem send_bulk_stops_at_unconvertible_recipient:
  "isReady ready_state \<and>
   body_prop odd_recipients ''recipients'' =
     JArr [JObj [(''toString'', JNum 1)], JStr ''9876543210''] \<and>
   truthy (body_prop odd_recipients ''message'') \<and>
   send_bulk_handler env ready_state odd_recipients =
     (Inl (TypeError ''Cannot convert object to primitive value''), [])"
  by (simp add: send_bulk_handler_def run_simps ready_state_def odd_recipients_def)

theorem send_bulk_stops_at_unconvertible_recipient_witness:
  "send_bulk_handler env_ok ready_state odd_recipients =
     (Inl (TypeError ''Cannot convert object to primitive value''), []) \<and>
   send_bulk_handler env_down ready_state odd_recipients =
     (Inl (TypeError ''Cannot convert object to primitive value''), []) \<and>
   length (elements (body_prop odd_recipients ''recipients'')) = 2"
  using send_bulk_stops_at_unconvertible_recipient [of env_ok]
    send_bulk_stops_at_unconvertible_recipient [of env_down]
  by simp

text \<open>
  C3. Every \<^verbatim>\<open>/send\<close> request made while \<open>ready = false\<close> is answered with the status 400,
  and no send command is issued, whatever the body of the request.
\<close>

theorem send_not_ready_400:
  "\<not> isReady s \<Longrightarrow>
     status (fst (send_handler env s b)) = 400 \<and> snd (send_handler env s b) = [] \<and>
     json_body (fst (send_handler env s b)) =
       failure_body ''WhatsApp is not connected. Please scan QR code first.''"
  by (simp add: send_handler_def)

theorem send_not_ready_400_witness:
  "\<not> isReady pairing_state \<and>
   send_handler env_ok pairing_state one_phone =
     (\<lparr>status = 400, json_body =
         failure_body ''WhatsApp is not connected. Please scan QR code first.''\<rparr>, [])"
  using send_not_ready_400 [of pairing_state env_ok one_phone]
  by (simp add: pairing_state_def prod_eq_iff)

text \<open>
  C4. For every inbound message the handler returns normally, leaves the Connection State
  as it was, and posts to the relay exactly once (no retry). It issues a reply command if
  and only if the relay call resolved, its response parsed as JSON and the \<^verbatim>\<open>reply\<close> field
  of the parsed value is truthy (for a text: not empty), and it issues at most one. So after
  a network error, a response that is not JSON, or a response without a non-empty
  \<^verbatim>\<open>reply\<close>, no reply is sent.
\<close>

theorem inbound_relay_swallows_failures:
  "\<exists>cs. client_on env s (Message m) = (Inr (), s, cs) \<and>
     filter is_fetch cs = [Fetch (replace_first ''@c.us'' [] (msg_from m)) (trim (msg_body m))] \<and>
     length (filter is_reply cs) \<le> 1 \<and>
     ((\<exists>r. Reply r \<in> set cs) \<longleftrightarrow>
        (\<exists>response result.
           fetch env [] (replace_first ''@c.us'' [] (msg_from m)) (trim (msg_body m)) = Inr response \<and>
           response_json response = Inr result \<and> truthy (get_prop result ''reply'')))"
proof -
  let ?f = "replace_first ''@c.us'' [] (msg_from m)"
  let ?t = "trim (msg_body m)"
  show ?thesis
  proof (cases "fetch env [] ?f ?t")
    case (Inl e)
    then show ?thesis
      by (simp add: handleIncomingMessage_def handleIncomingMessage_try_def Let_def)
  next
    case (Inr response)
    show ?thesis
    proof (cases "response_json response")
      case (Inl e)
      with Inr show ?thesis
        by (simp add: handleIncomingMessage_def handleIncomingMessage_try_def Let_def)
    next
      case result: (Inr result)
      show ?thesis
      proof (cases "truthy (get_prop result ''reply'')")
        case False
        with Inr result show ?thesis
          by (simp add: handleIncomingMessage_def handleIncomingMessage_try_def Let_def
              read_prop_def)
      next
        case True
        then have "result \<noteq> JNull" "result \<noteq> JUndefined"
          by auto
        with True Inr result show ?thesis
          by (cases "reply env [Fetch ?f ?t] (get_prop result ''reply'')")
            (simp_all add: handleIncomingMessage_def handleIncomingMessage_try_def Let_def
              read_prop_def)
      qed
    qed
  qed
qed

theorem inbound_relay_swallows_failures_witness:
  "client_on env_down pairing_state (Message inbound) =
     (Inr (), pairing_state, [Fetch ''919876543210'' ''fees?'']) \<and>
   client_on env_second_fails pairing_state (Message inbound) =
     (Inr (), pairing_state, [Fetch ''919876543210'' ''fees?'']) \<and>
   client_on env_first_fails pairing_state (Message inbound) =
     (Inr (), pairing_state, [Fetch ''919876543210'' ''fees?'']) \<and>
   client_on env_ok pairing_state (Message inbound) =
     (Inr (), pairing_state, [Fetch ''919876543210'' ''fees?'', Reply (JStr ''hello'')])"
  using inbound_relay_swallows_failures [of env_down pairing_state inbound]
    inbound_relay_swallows_failures [of env_second_fails pairing_state inbound]
    inbound_relay_swallows_failures [of env_first_fails pairing_state inbound]
    inbound_relay_swallows_failures [of env_ok pairing_state inbound]
  by (simp add: handleIncomingMessage_def handleIncomingMessage_try_def Let_def read_prop_def
      env_down_def env_second_fails_def env_first_fails_def env_ok_def inbound_def trim_def
      white_space_def starts_with_one_of_def)

text \<open>
  C5, as the code has it. \<^verbatim>\<open>/logout\<close> does not look at the ready flag: whatever the
  Connection State, it issues the logout command once. When the command resolves, the
  response is 200 and the state is cleared (\<open>ready = false\<close>, no pairing image); when it is
  rejected, the response is 500 with the text of the error and the state is as before.
  The status is never 400.
\<close>

theorem logout_has_no_ready_guard:
  "status (fst (logout_handler env s)) \<noteq> 400 \<and>
   snd (snd (logout_handler env s)) = [Logout] \<and>
   (logout env [] = Inr () \<longrightarrow>
      logout_handler env s =
        (\<lparr>status = 200, json_body = JObj
            [(''success'', JBool True), (''message'', JStr ''Logged out successfully'')]\<rparr>,
         \<lparr>isReady = False, qrCodeData = []\<rparr>, [Logout])) \<and>
   (\<forall>e. logout env [] = Inl e \<longrightarrow>
      logout_handler env s =
        (\<lparr>status = 500, json_body = failure_body (error_message e)\<rparr>, s, [Logout]))"
  by (cases "logout env []") (simp_all add: logout_handler_def)

theorem logout_has_no_ready_guard_witness:
  "logout env_ok [] = Inr () \<and>
   logout_handler env_ok pairing_state =
     (\<lparr>status = 200, json_body = JObj
         [(''success'', JBool True), (''message'', JStr ''Logged out successfully'')]\<rparr>,
      \<lparr>isReady = False, qrCodeData = []\<rparr>, [Logout]) \<and>
   logout env_down [] = Inl (Error ''Session closed'') \<and>
   logout_handler env_down pairing_state =
     (\<lparr>status = 500, json_body = failure_body ''Session closed''\<rparr>, pairing_state, [Logout])"
  using logout_has_no_ready_guard [of env_ok pairing_state]
    logout_has_no_ready_guard [of env_down pairing_state]
  by (simp add: env_ok_def env_down_def)

text \<open>
  The claim C5 as stated (400 while \<open>ready = false\<close>) fails: with \<open>ready = false\<close> the status
  is 200 when the logout command resolves and 500 when it is rejected.
\<close>

theorem logout_not_ready_counterexample:
  "\<not> isReady pairing_state \<and>
   status (fst (logout_handler env_ok pairing_state)) = 200 \<and>
   status (fst (logout_handler env_down pairing_state)) = 500"
  by (simp add: logout_handler_def env_ok_def env_down_def pairing_state_def)

text \<open>
  C6, as the code has it. A \<^verbatim>\<open>/send-bulk\<close> request made while \<open>ready = true\<close> whose
  \<^verbatim>\<open>message\<close> is missing (falsy) or whose \<^verbatim>\<open>recipients\<close> is not an array is answered with 400
  and issues no command. An empty array of recipients is an array: with a message the
  request is accepted, and the response is 200 with no results, \<^verbatim>\<open>sent = 0\<close> and
  \<^verbatim>\<open>failed = 0\<close>.
\<close>

theorem send_bulk_validation:
  assumes "isReady s"
  shows "(\<not> truthy (body_prop b ''message'') \<or> \<not> isArray (body_prop b ''recipients'') \<longrightarrow>
            send_bulk_handler env s b =
              (Inr \<lparr>status = 400, json_body =
                  failure_body ''Recipients array and message are required''\<rparr>, [])) \<and>
         (truthy (body_prop b ''message'') \<and> body_prop b ''recipients'' = JArr [] \<longrightarrow>
            send_bulk_handler env s b =
              (Inr \<lparr>status = 200, json_body = JObj
                  [(''success'', JBool True), (''results'', JArr []),
                   (''sent'', JNum 0), (''failed'', JNum 0)]\<rparr>, []))"
  using assms by (auto simp: send_bulk_handler_def Let_def)

theorem send_bulk_validation_witness:
  "isReady ready_state \<and>
   \<not> isArray (body_prop (Body_Object [(''recipients'', JStr ''9876543210''), (''message'', JStr ''hi'')])
        ''recipients'') \<and>
   send_bulk_handler env_ok ready_state
       (Body_Object [(''recipients'', JStr ''9876543210''), (''message'', JStr ''hi'')]) =
     (Inr \<lparr>status = 400, json_body =
         failure_body ''Recipients array and message are required''\<rparr>, []) \<and>
   \<not> truthy (body_prop (Body_Object [(''recipients'', JArr [JStr ''9876543210''])]) ''message'') \<and>
   send_bulk_handler env_ok ready_state (Body_Object [(''recipients'', JArr [JStr ''9876543210''])]) =
     (Inr \<lparr>status = 400, json_body =
         failure_body ''Recipients array and message are required''\<rparr>, []) \<and>
   truthy (body_prop no_recipients ''message'') \<and>
   body_prop no_recipients ''recipients'' = JArr [] \<and>
   send_bulk_handler env_ok ready_state no_recipients =
     (Inr \<lparr>status = 200, json_body = JObj
         [(''success'', JBool True), (''results'', JArr []),
          (''sent'', JNum 0), (''failed'', JNum 0)]\<rparr>, [])"
proof -
  have ready: "isReady ready_state"
    by (simp add: ready_state_def)
  from send_bulk_validation [OF ready, of
      "Body_Object [(''recipients'', JStr ''9876543210''), (''message'', JStr ''hi'')]" env_ok]
    send_bulk_validation [OF ready, of
      "Body_Object [(''recipients'', JArr [JStr ''9876543210''])]" env_ok]
    send_bulk_validation [OF ready, of no_recipients env_ok] ready
  show ?thesis
    by (simp add: no_recipients_def)
qed

text \<open>
  The claim C6 as stated (an empty list of recipients is rejected with 400) fails: the
  request with \<^verbatim>\<open>recipients: []\<close> and a message gets the status 200.
\<close>

theorem send_bulk_empty_list_counterexample:
  "isReady ready_state \<and>
   body_prop no_recipients ''recipients'' = JArr [] \<and>
   fst (send_bulk_handler env_ok ready_state no_recipients) =
     Inr \<lparr>status = 200, json_body = JObj
         [(''success'', JBool True), (''results'', JArr []),
          (''sent'', JNum 0), (''failed'', JNum 0)]\<rparr>"
  by (simp add: send_bulk_handler_def ready_state_def no_recipients_def Let_def)

text \<open>
  C7. \<^verbatim>\<open>/qr\<close> never fails and returns one of three results, the ready flag first: with
  \<open>ready = true\<close> it is \<^verbatim>\<open>{connected: true, qrCode: null}\<close> whatever pairing image is stored;
  with \<open>ready = false\<close> and a pairing image it is \<^verbatim>\<open>{connected: false, qrCode: image}\<close>;
  otherwise it is \<^verbatim>\<open>{connected: false, qrCode: null}\<close>.
\<close>

theorem qr_three_results:
  "status (qr_handler s) = 200 \<and>
   (get_prop (json_body (qr_handler s)) ''connected'',
    get_prop (json_body (qr_handler s)) ''qrCode'') =
     (if isReady s then (JBool True, JNull)
      else if qrCodeData s \<noteq> [] then (JBool False, JStr (qrCodeData s))
      else (JBool False, JNull))"
  by (simp add: qr_handler_def)

theorem qr_three_results_witness:
  "(get_prop (json_body (qr_handler stale_state)) ''connected'',
    get_prop (json_body (qr_handler stale_state)) ''qrCode'') = (JBool True, JNull) \<and>
   (get_prop (json_body (qr_handler pairing_state)) ''connected'',
    get_prop (json_body (qr_handler pairing_state)) ''qrCode'') =
     (JBool False, JStr ''data:image/png;base64,iVBORw0KGgo='') \<and>
   (get_prop (json_body (qr_handler initial_state)) ''connected'',
    get_prop (json_body (qr_handler initial_state)) ''qrCode'') = (JBool False, JNull)"
  using qr_three_results [of stale_state] qr_three_results [of pairing_state]
    qr_three_results [of initial_state]
  by (simp add: stale_state_def pairing_state_def initial_state_def)

text \<open>
  C8. The ready event and the disconnected event both clear the pairing image: after the
  ready event the state is \<open>ready = true\<close> with no pairing image, after the disconnected
  event it is \<open>ready = false\<close> with no pairing image, whatever the state before.
\<close>

theorem lifecycle_clears_pairing_image:
  "client_on env s Ready = (Inr (), \<lparr>isReady = True, qrCodeData = []\<rparr>, []) \<and>
   client_on env s (Disconnected reason) = (Inr (), \<lparr>isReady = False, qrCodeData = []\<rparr>, [])"
  by simp

theorem lifecycle_clears_pairing_image_witness:
  "qrCodeData pairing_state \<noteq> [] \<and>
   client_on env_ok pairing_state Ready = (Inr (), \<lparr>isReady = True, qrCodeData = []\<rparr>, []) \<and>
   qrCodeData stale_state \<noteq> [] \<and>
   client_on env_ok stale_state (Disconnected ''NAVIGATION'') =
     (Inr (), \<lparr>isReady = False, qrCodeData = []\<rparr>, [])"
  using lifecycle_clears_pairing_image [of env_ok pairing_state]
    lifecycle_clears_pairing_image [of env_ok stale_state "''NAVIGATION''"]
  by (simp add: pairing_state_def stale_state_def)

text \<open>
  C9, as the code has it. In the loop of \<^verbatim>\<open>/send-bulk\<close> the pause of 2000 ms follows every
  send that succeeded, the last one as well, and only those: a send that failed is
  directly followed by the next send or by the end of the loop. The commands of the
  handler are \<open>paced\<close>.
\<close>

theorem send_bulk_pause_follows_success:
  assumes "isReady s" and "body_prop b ''recipients'' = JArr rs"
    and "truthy (body_prop b ''message'')"
  shows "paced env [] (snd (send_bulk_handler env s b))"
proof -
  from loop_paced [of env "body_prop b ''message''" rs "[]" "[]"]
  have "paced env [] (snd (send_bulk_loop env (body_prop b ''message'') rs [] []))"
    by simp
  with bulk_calls [OF assms, of env] show ?thesis
    by simp
qed

theorem send_bulk_pause_follows_success_witness:
  "isReady ready_state \<and>
   body_prop two_recipients ''recipients'' = JArr [JStr ''9876543210'', JStr ''9876543211''] \<and>
   truthy (body_prop two_recipients ''message'') \<and>
   paced env_first_fails []
     [SendMessage ''919876543210@c.us'' (JStr ''hi''),
      SendMessage ''919876543211@c.us'' (JStr ''hi''), Pause 2000] \<and>
   \<not> paced env_first_fails []
     [SendMessage ''919876543210@c.us'' (JStr ''hi''), Pause 2000,
      SendMessage ''919876543211@c.us'' (JStr ''hi'')]"
proof -
  have ready: "isReady ready_state"
    by (simp add: ready_state_def)
  have recipients: "body_prop two_recipients ''recipients'' =
      JArr [JStr ''9876543210'', JStr ''9876543211'']"
    by (simp add: two_recipients_def)
  have message: "truthy (body_prop two_recipients ''message'')"
    by (simp add: two_recipients_def)
  have other: "\<not> paced env_first_fails []
     [SendMessage ''919876543210@c.us'' (JStr ''hi''), Pause 2000,
      SendMessage ''919876543211@c.us'' (JStr ''hi'')]"
    by (simp add: env_first_fails_def)
  from send_bulk_pause_follows_success [OF ready recipients message, of env_first_fails]
    two_run ready recipients message other
  show ?thesis
    by simp
qed

text \<open>
  The claim C9 as stated (a pause after every send attempt but the last, failed or not)
  fails: when the send to the first of two recipients is rejected, the second send follows
  it with no pause between them, and the one pause comes after the last send.
\<close>

theorem send_bulk_pause_counterexample:
  "isReady ready_state \<and>
   sendMessage env_first_fails [] ''919876543210@c.us'' (JStr ''hi'') = Inl (Error ''Evaluation failed'') \<and>
   snd (send_bulk_handler env_first_fails ready_state two_recipients) =
     [SendMessage ''919876543210@c.us'' (JStr ''hi''),
      SendMessage ''919876543211@c.us'' (JStr ''hi''), Pause 2000]"
  by (simp add: two_run) (simp add: ready_state_def env_first_fails_def)

text \<open>
  C10. In the response of every successful \<^verbatim>\<open>/send\<close> request the field \<^verbatim>\<open>to\<close> is the chat
  identifier that was passed to the send command: the normalized digit string with the
  suffix \<^verbatim>\<open>@c.us\<close>, not the bare digit string.
\<close>

theorem send_success_to_is_chat_id:
  assumes "send_handler env s b = (r, cs)" and "status r = 200"
  shows "\<exists>p n. body_prop b ''phone'' = JStr p \<and> normalizePhone (JStr p) = Inr n \<and>
           get_prop (json_body r) ''to'' = JStr (n @ ''@c.us'') \<and>
           get_prop (json_body r) ''to'' \<noteq> JStr n \<and>
           cs = [SendMessage (n @ ''@c.us'') (body_prop b ''message'')]"
proof -
  from assms have ready: "isReady s"
    and ok: "truthy (body_prop b ''phone'')" "truthy (body_prop b ''message'')"
    by (auto simp: send_handler_def Let_def split: if_splits)
  from assms ready ok obtain n where n: "normalizePhone (body_prop b ''phone'') = Inr n"
    by (cases "normalizePhone (body_prop b ''phone'')") (auto simp: send_handler_def Let_def)
  then obtain p where p: "body_prop b ''phone'' = JStr p"
    by (cases "body_prop b ''phone''") (auto simp: normalizePhone_def)
  from assms ready ok n have "r = \<lparr>status = 200, json_body = JObj
        [(''success'', JBool True), (''message'', JStr ''Message sent successfully''),
         (''to'', JStr (chatId_of n))]\<rparr> \<and> cs = [SendMessage (chatId_of n) (body_prop b ''message'')]"
    by (auto simp: send_handler_def Let_def split: sum.splits)
  with n p show ?thesis
    by (auto simp: chatId_of_def)
qed

theorem send_success_to_is_chat_id_witness:
  "send_handler env_ok ready_state one_phone =
     (\<lparr>status = 200, json_body = JObj
         [(''success'', JBool True), (''message'', JStr ''Message sent successfully''),
          (''to'', JStr ''919876543210@c.us'')]\<rparr>,
      [SendMessage ''919876543210@c.us'' (JStr ''hi'')]) \<and>
   body_prop one_phone ''phone'' = JStr ''+91-98765-43210'' \<and>
   normalizePhone (JStr ''+91-98765-43210'') = Inr ''919876543210''"
proof -
  have "status \<lparr>status = 200, json_body = JObj
         [(''success'', JBool True), (''message'', JStr ''Message sent successfully''),
          (''to'', JStr ''919876543210@c.us'')]\<rparr> = 200"
    by simp
  from send_success_to_is_chat_id [OF one_run this] one_run show ?thesis
    by (auto simp: one_phone_def)
qed

end
